theory Spec2Isabelle
  imports Main
begin

section \<open>JavaScript values used by \<open>retrieve\<close>\<close>

text \<open>
  The module \<open>src/api/managed-records.js\<close> exports one function, \<open>retrieve(options)\<close>.
  It reads two keys of \<open>options\<close>, builds a request URL, hands it to \<open>fetch\<close> and
  reshapes the decoded answer inside a promise chain that ends in
  \<open>.catch(err => console.log(err))\<close>.

  Numbers are modelled at the integer-valued doubles, \<open>NaN\<close> and the two infinities:
  \<open>Num n\<close> is the double whose value is the integer \<open>n\<close>. Every integer of magnitude up
  to \<open>2^53\<close> is a double; above, only the multiples of a power of two are, and a
  \<open>Num n\<close> whose \<open>n\<close> is none of them stands for the nearest double, as the literal
  \<open>n\<close> does. Fractions are outside the model, and so is the sign of zero, which none of
  the operations used by the source shows.
\<close>

datatype jsnum = Num int | NaN | PosInf | NegInf

text \<open>
  What can sit under the key \<open>page\<close>: the documented type is \<open>number\<close>; \<open>undefined\<close>
  and \<open>null\<close> are kept because the source's \<open>|| 0\<close> exists for such values.
\<close>

datatype pagearg = PUndefined | PNull | PNumber jsnum

text \<open>What can sit under the key \<open>colors\<close>: an array of strings, or a falsy value.\<close>

datatype colorsarg = CUndefined | CNull | CArray "string list"

text \<open>
  The \<open>options\<close> object: a key is \<open>None\<close> when it is not \<open>in\<close> the object. The argument
  of \<open>retrieve\<close> is an \<open>options option\<close>, \<open>None\<close> for a call without argument
  (\<open>options === undefined\<close>).
\<close>

record options =
  page_key :: "pagearg option"
  colors_key :: "colorsarg option"

subsection \<open>Double arithmetic on integers\<close>

text \<open>The number of binary digits of a positive integer.\<close>

function bits :: "int \<Rightarrow> nat" where
  "bits n = (if n \<le> 0 then 0 else Suc (bits (n div 2)))"
  by pat_completeness auto
termination
  by (relation "measure nat") auto

declare bits.simps [simp del]

text \<open>
  The double nearest to an integer, ties to the even significand: 53 binary digits are
  kept, and a result of \<open>2^1024\<close> or more is an infinity.
\<close>

definition round_double :: "int \<Rightarrow> jsnum" where
  "round_double n =
     (if \<bar>n\<bar> \<le> 9007199254740992 then Num n
      else let a = \<bar>n\<bar>;
               e = bits a - 53;
               q = a div 2 ^ e;
               r = a mod 2 ^ e;
               h = 2 ^ (e - 1);
               q' = (if h < r \<or> (r = h \<and> odd q) then q + 1 else q);
               m = q' * 2 ^ e
           in if 2 ^ 1024 \<le> m then (if n < 0 then NegInf else PosInf)
              else Num (if n < 0 then - m else m))"

text \<open>\<open>ToNumber\<close> on the values a page can be.\<close>

fun to_number :: "pagearg \<Rightarrow> jsnum" where
  "to_number PUndefined = NaN"
| "to_number PNull = Num 0"
| "to_number (PNumber (Num n)) = round_double n"
| "to_number (PNumber x) = x"

text \<open>
  \<open>a - b\<close>, \<open>a * b\<close> and \<open>a + b\<close> on numbers: the exact result, rounded to a double.
\<close>

fun js_minus :: "jsnum \<Rightarrow> jsnum \<Rightarrow> jsnum" where
  "js_minus (Num a) (Num b) = round_double (a - b)"
| "js_minus NaN _ = NaN"
| "js_minus _ NaN = NaN"
| "js_minus PosInf PosInf = NaN"
| "js_minus NegInf NegInf = NaN"
| "js_minus PosInf _ = PosInf"
| "js_minus _ PosInf = NegInf"
| "js_minus NegInf _ = NegInf"
| "js_minus _ NegInf = PosInf"

fun js_sign :: "jsnum \<Rightarrow> int" where
  "js_sign (Num a) = sgn a"
| "js_sign NaN = 0"
| "js_sign PosInf = 1"
| "js_sign NegInf = - 1"

fun js_times :: "jsnum \<Rightarrow> jsnum \<Rightarrow> jsnum" where
  "js_times (Num a) (Num b) = round_double (a * b)"
| "js_times NaN _ = NaN"
| "js_times _ NaN = NaN"
| "js_times a b =
     (let s = js_sign a * js_sign b
      in if s = 0 then NaN else if 0 < s then PosInf else NegInf)"

fun js_plus :: "jsnum \<Rightarrow> jsnum \<Rightarrow> jsnum" where
  "js_plus (Num a) (Num b) = round_double (a + b)"
| "js_plus NaN _ = NaN"
| "js_plus _ NaN = NaN"
| "js_plus PosInf NegInf = NaN"
| "js_plus NegInf PosInf = NaN"
| "js_plus PosInf _ = PosInf"
| "js_plus _ PosInf = PosInf"
| "js_plus NegInf _ = NegInf"
| "js_plus _ NegInf = NegInf"

text \<open>\<open>ToBoolean\<close> of a number: \<open>0\<close> and \<open>NaN\<close> are falsy.\<close>

fun truthy :: "jsnum \<Rightarrow> bool" where
  "truthy (Num n) = (n \<noteq> 0)"
| "truthy NaN = False"
| "truthy PosInf = True"
| "truthy NegInf = True"

definition js_or :: "jsnum \<Rightarrow> jsnum \<Rightarrow> jsnum" where
  "js_or a b = (if truthy a then a else b)"

text \<open>\<open>page === 1\<close>: strict equality, true for the number one only.\<close>

fun is_one :: "pagearg \<Rightarrow> bool" where
  "is_one (PNumber (Num n)) = (n = 1)"
| "is_one _ = False"

subsection \<open>Numbers as text\<close>

text \<open>The decimal digits of a natural number.\<close>

function digits :: "int \<Rightarrow> string" where
  "digits n =
     (if n < 10 then [''0123456789'' ! nat n]
      else digits (n div 10) @ [''0123456789'' ! nat (n mod 10)])"
  by pat_completeness auto
termination
  by (relation "measure nat") auto

declare digits.simps [simp del]

definition show_int :: "int \<Rightarrow> string" where
  "show_int i = (if i < 0 then ''-'' @ digits (- i) else digits i)"

text \<open>
  \<open>String(x)\<close> for a double \<open>x\<close> above \<open>2^53\<close>: the language takes the fewest digits
  \<open>s\<close>, \<open>k\<close> of them, such that \<open>s * 10^(n - k)\<close> reads back as \<open>x\<close>, and of two such
  the one closer to \<open>x\<close>, the even one on a tie. \<open>find_digits\<close> tries \<open>k = 1, 2, ...\<close>
  for a number of \<open>d\<close> digits; with \<open>k = d\<close> the digits of \<open>x\<close> itself do.
\<close>

fun find_digits :: "nat \<Rightarrow> int \<Rightarrow> nat \<Rightarrow> nat \<Rightarrow> int" where
  "find_digits 0 x d k = x"
| "find_digits (Suc fuel) x d k =
     (let e = d - k;
          lo = x div 10 ^ e;
          hi = lo + 1;
          oklo = (round_double (lo * 10 ^ e) = Num x);
          okhi = (hi < 10 ^ k \<and> round_double (hi * 10 ^ e) = Num x)
      in if oklo \<and> okhi then
           (if x - lo * 10 ^ e < hi * 10 ^ e - x then lo
            else if hi * 10 ^ e - x < x - lo * 10 ^ e then hi
            else if even lo then lo else hi)
         else if oklo then lo
         else if okhi then hi
         else find_digits fuel x d (Suc k))"

text \<open>
  The digits \<open>s\<close> of a number below \<open>10^n\<close>: followed by zeros up to 21 digits, in
  exponent form from 22.
\<close>

definition format_digits :: "int \<Rightarrow> nat \<Rightarrow> string" where
  "format_digits s n =
     (let ds = digits s
      in if n \<le> 21 then ds @ replicate (n - length ds) (CHR ''0'')
         else (case ds of [] \<Rightarrow> []
               | c # cs \<Rightarrow>
                   c # (if cs = [] then [] else ''.'' @ cs) @ ''e+'' @ digits (int (n - 1))))"

text \<open>A double just below a power of ten that this power reads back as is written as it.\<close>

definition show_big :: "int \<Rightarrow> string" where
  "show_big x =
     (let d = length (digits x)
      in if round_double (10 ^ d) = Num x then format_digits 1 (d + 1)
         else format_digits (find_digits d x d 1) d)"

text \<open>\<open>String(n)\<close> for the numbers of the model.\<close>

fun show_num :: "jsnum \<Rightarrow> string" where
  "show_num (Num i) =
     (if \<bar>i\<bar> \<le> 9007199254740992 then show_int i
      else (if i < 0 then ''-'' else []) @ show_big \<bar>i\<bar>)"
| "show_num NaN = ''NaN''"
| "show_num PosInf = ''Infinity''"
| "show_num NegInf = ''-Infinity''"

section \<open>The query-string builder\<close>

text \<open>
  Modelled from the spec: the URL builder \<open>URI\<close> of the external package \<open>urijs\<close>, which
  is imported by the source and is not part of it. The spec gives the interface the
  core consumes: a scalar key is written once, an array value gives one repeated key
  per element in the order supplied, and the result has the shape
  \<open>?limit=..&offset=..&color[]=c1&color[]=c2\<close>.
\<close>

record uri =
  base :: string
  query :: "(string \<times> string) list"

datatype qvalue = QNumber jsnum | QStrings "string list"

definition URI :: "string \<Rightarrow> uri" where
  "URI p = \<lparr>base = p, query = []\<rparr>"

fun addSearch :: "string \<Rightarrow> qvalue \<Rightarrow> uri \<Rightarrow> uri" where
  "addSearch name (QNumber n) u = u\<lparr>query := query u @ [(name, show_num n)]\<rparr>"
| "addSearch name (QStrings vs) u = u\<lparr>query := query u @ map (Pair name) vs\<rparr>"

fun build_query :: "(string \<times> string) list \<Rightarrow> string" where
  "build_query [] = []"
| "build_query ((k, v) # ps) = ''&'' @ k @ ''='' @ v @ build_query ps"

definition toString :: "uri \<Rightarrow> string" where
  "toString u = (if query u = [] then base u else base u @ ''?'' @ tl (build_query (query u)))"

section \<open>Building the request\<close>

definition path :: string where
  "path = ''http://localhost:3000/records''"

definition limit :: int where
  "limit = 10"

text \<open>\<open>"colors" in options ? options.colors : []\<close>, after \<open>options\<close> defaulted to \<open>{}\<close>.\<close>

definition colors_of :: "options option \<Rightarrow> colorsarg" where
  "colors_of opts =
     (case opts of None \<Rightarrow> CArray []
      | Some o1 \<Rightarrow> (case colors_key o1 of None \<Rightarrow> CArray [] | Some c \<Rightarrow> c))"

text \<open>\<open>"page" in options ? options.page : 1\<close>.\<close>

definition page_of :: "options option \<Rightarrow> pagearg" where
  "page_of opts =
     (case opts of None \<Rightarrow> PNumber (Num 1)
      | Some o1 \<Rightarrow> (case page_key o1 of None \<Rightarrow> PNumber (Num 1) | Some p \<Rightarrow> p))"

text \<open>\<open>(page - 1) * limit || 0\<close>.\<close>

definition offset_of :: "pagearg \<Rightarrow> jsnum" where
  "offset_of page = js_or (js_times (js_minus (to_number page) (Num 1)) (Num limit)) (Num 0)"

text \<open>
  The three \<open>addSearch\<close> calls. \<open>if (colors)\<close> tests truthiness: every array passes,
  the empty one too, \<open>undefined\<close> and \<open>null\<close> do not.
\<close>

definition requestURI :: "options option \<Rightarrow> uri" where
  "requestURI opts =
     (let u0 = URI path;
          u1 = addSearch ''limit'' (QNumber (js_plus (Num limit) (Num 1))) u0;
          u2 = addSearch ''offset'' (QNumber (offset_of (page_of opts))) u1
      in case colors_of opts of
           CArray cs \<Rightarrow> addSearch ''color[]'' (QStrings cs) u2
         | _ \<Rightarrow> u2)"

definition requestURL :: "options option \<Rightarrow> string" where
  "requestURL opts = toString (requestURI opts)"

section \<open>The transport and its answers\<close>

text \<open>A \<open>RecordObject\<close> of the endpoint, as the source's typedef has it.\<close>

record record_obj =
  id_rec :: int
  color :: string
  disposition :: string

text \<open>The typedef \<open>Open\<close>: a \<open>RecordObject\<close> with the additional key \<open>isPrimary\<close>.\<close>

record open_obj = record_obj +
  isPrimary :: bool

text \<open>
  What \<open>res.json()\<close> can decode to, at the classes the second callback tells apart:
  \<open>null\<close> (reading \<open>data.length\<close> throws), another value that is no array (number,
  boolean, string, object: \<open>data.splice\<close> is not a function), or an array of records.
\<close>

datatype data = JNull | JOther | JArray "record_obj list"

text \<open>A response: \<open>body = None\<close> is a body that is not JSON, so \<open>res.json()\<close> rejects.\<close>

record response =
  ok :: bool
  status :: int
  body :: "data option"

datatype js_error = Error string | TypeError | SyntaxError | TransportError string

text \<open>
  A settled promise is a sum, \<open>Inl\<close> the rejection. \<open>fetch\<close> (\<open>../util/fetch-fill\<close>) is a
  parameter of the model: a function from the URL to the settled promise it returns.
\<close>

type_synonym 'a promise = "js_error + 'a"

definition then_p :: "'a promise \<Rightarrow> ('a \<Rightarrow> 'b promise) \<Rightarrow> 'b promise" where
  "then_p p f = (case p of Inl e \<Rightarrow> Inl e | Inr v \<Rightarrow> f v)"

text \<open>A transport that answers every URL with the same response.\<close>

definition respond :: "response \<Rightarrow> string \<Rightarrow> response promise" where
  "respond r u = Inr r"

section \<open>Shaping the response\<close>

definition isPrimaryColor :: "string \<Rightarrow> bool" where
  "isPrimaryColor c = (c \<in> set [''red'', ''blue'', ''yellow''])"

text \<open>\<open>data.splice(start, count)\<close> with \<open>start \<ge> 0\<close>: the array that is left.\<close>

definition splice_js :: "nat \<Rightarrow> nat \<Rightarrow> 'a list \<Rightarrow> 'a list" where
  "splice_js start cnt xs = take start xs @ drop (start + cnt) xs"

text \<open>\<open>{...record, isPrimary: isPrimaryColor(record.color)}\<close>.\<close>

definition with_primary :: "record_obj \<Rightarrow> open_obj" where
  "with_primary r =
     \<lparr>id_rec = id_rec r, color = color r, disposition = disposition r,
      isPrimary = isPrimaryColor (color r)\<rparr>"

record payload =
  ids :: "int list"
  "open" :: "open_obj list"
  closedPrimaryCount :: nat
  previousPage :: "jsnum option"
  nextPage :: "jsnum option"

text \<open>
  The first callback: \<open>res.ok ? res.json() : throw new Error(...)\<close>, the status
  written into the message.
\<close>

definition on_response :: "response \<Rightarrow> data promise" where
  "on_response res =
     (if ok res then (case body res of None \<Rightarrow> Inl SyntaxError | Some d \<Rightarrow> Inr d)
      else Inl (Error (''Fetching /records failed with: '' @ show_int (status res))))"

text \<open>The second callback on an array, in the order of the source.\<close>

definition shape :: "pagearg \<Rightarrow> record_obj list \<Rightarrow> payload" where
  "shape page raw =
     (let previousPage = (if is_one page then None
                          else Some (js_minus (to_number page) (Num 1)));
          nextPage = (if length raw > 10 then Some (js_plus (to_number page) (Num 1))
                      else None);
          trimmed = splice_js (nat limit) 1 raw;
          recordsWithPrimary = map with_primary trimmed
      in \<lparr>ids = map id_rec trimmed,
          open = filter (\<lambda>r. disposition r = ''open'') recordsWithPrimary,
          closedPrimaryCount =
            length (filter (\<lambda>r. disposition r = ''closed'' \<and> isPrimary r) recordsWithPrimary),
          previousPage = previousPage,
          nextPage = nextPage\<rparr>)"

definition on_data :: "pagearg \<Rightarrow> data \<Rightarrow> payload promise" where
  "on_data page d =
     (case d of JNull \<Rightarrow> Inl TypeError
      | JOther \<Rightarrow> Inl TypeError
      | JArray raw \<Rightarrow> Inr (shape page raw))"

section \<open>retrieve\<close>

text \<open>The promise chain before its \<open>.catch\<close>.\<close>

definition retrieve_chain :: "(string \<Rightarrow> response promise) \<Rightarrow> options option \<Rightarrow> payload promise" where
  "retrieve_chain fetch opts =
     then_p (then_p (fetch (requestURL opts)) on_response) (on_data (page_of opts))"

text \<open>
  What a call leaves behind: the URL requested, the promise returned (its value is a
  payload, or \<open>None\<close> for \<open>undefined\<close>) and what was written with \<open>console.log\<close>.
\<close>

record outcome =
  url :: string
  settled :: "payload option promise"
  console :: "js_error list"

definition retrieve :: "(string \<Rightarrow> response promise) \<Rightarrow> options option \<Rightarrow> outcome" where
  "retrieve fetch opts =
     (case retrieve_chain fetch opts of
        Inl err \<Rightarrow> \<lparr>url = requestURL opts, settled = Inr None, console = [err]\<rparr>
      | Inr p \<Rightarrow> \<lparr>url = requestURL opts, settled = Inr (Some p), console = []\<rparr>)"

section \<open>Sample responses\<close>

definition mk :: "int \<Rightarrow> string \<Rightarrow> string \<Rightarrow> record_obj" where
  "mk i c d = \<lparr>id_rec = i, color = c, disposition = d\<rparr>"

text \<open>Eleven records, ids 1 to 11: a full page and the record fetched over the limit.\<close>

definition eleven :: "record_obj list" where
  "eleven =
     [mk 1 ''red'' ''open'', mk 2 ''brown'' ''closed'', mk 3 ''blue'' ''closed'',
      mk 4 ''green'' ''open'', mk 5 ''yellow'' ''closed'', mk 6 ''red'' ''closed'',
      mk 7 ''brown'' ''open'', mk 8 ''blue'' ''open'', mk 9 ''green'' ''closed'',
      mk 10 ''yellow'' ''open'', mk 11 ''red'' ''open'']"

text \<open>Thirteen records, as a transport that ignores \<open>limit\<close> could answer.\<close>

definition thirteen :: "record_obj list" where
  "thirteen = eleven @ [mk 12 ''blue'' ''closed'', mk 13 ''yellow'' ''open'']"

text \<open>A success response carrying an array, and options that give the page only.\<close>

definition answers :: "record_obj list \<Rightarrow> response" where
  "answers raw = \<lparr>ok = True, status = 200, body = Some (JArray raw)\<rparr>"

definition page_only :: "int \<Rightarrow> options option" where
  "page_only p = Some \<lparr>page_key = Some (PNumber (Num p)), colors_key = None\<rparr>"

section \<open>Properties\<close>

text \<open>
  A call whose transport answers with a success status and an array of records is
  fulfilled with \<open>shape\<close> of the requested page and that array. The properties of
  the payload are stated on \<open>shape\<close>.
\<close>

lemma retrieve_success:
  assumes "fetch (requestURL opts) = Inr res" and "ok res" and "body res = Some (JArray raw)"
  shows "settled (retrieve fetch opts) = Inr (Some (shape (page_of opts) raw))"
  using assms by (simp add: retrieve_def retrieve_chain_def then_p_def on_response_def on_data_def)

subsection \<open>Arithmetic within the safe integers\<close>

lemma round_double_exact: "\<bar>n\<bar> \<le> 9007199254740992 \<Longrightarrow> round_double n = Num n"
  by (simp add: round_double_def)

lemma show_num_exact: "\<bar>n\<bar> \<le> 9007199254740992 \<Longrightarrow> show_num (Num n) = show_int n"
  by simp

subsection \<open>The fields of the payload\<close>

lemma trimmed: "splice_js (nat limit) 1 raw = take 10 raw @ drop 11 raw"
  by (simp add: splice_js_def limit_def)

lemma ids_shape: "ids (shape page raw) = map id_rec (take 10 raw @ drop 11 raw)"
  unfolding shape_def Let_def trimmed by simp

lemma open_shape:
  "open (shape page raw) =
     filter (\<lambda>r. disposition r = ''open'') (map with_primary (take 10 raw @ drop 11 raw))"
  unfolding shape_def Let_def trimmed by simp

lemma count_shape:
  "closedPrimaryCount (shape page raw) =
     length (filter (\<lambda>r. disposition r = ''closed'' \<and> isPrimary r)
               (map with_primary (take 10 raw @ drop 11 raw)))"
  unfolding shape_def Let_def trimmed by simp

lemma next_shape:
  "nextPage (shape page raw) =
     (if 10 < length raw then Some (js_plus (to_number page) (Num 1)) else None)"
  by (simp add: shape_def Let_def)

lemma prev_shape:
  "previousPage (shape page raw) =
     (if is_one page then None else Some (js_minus (to_number page) (Num 1)))"
  by (simp add: shape_def Let_def)

lemma with_primary_sel:
  "id_rec (with_primary r) = id_rec r"
  "color (with_primary r) = color r"
  "disposition (with_primary r) = disposition r"
  "isPrimary (with_primary r) = isPrimaryColor (color r)"
  by (simp_all add: with_primary_def)

lemma length_eleven: "length eleven = 11"
  by (simp add: eleven_def)

lemma length_thirteen: "length thirteen = 13"
  by (simp add: thirteen_def eleven_def)

lemma nth_thirteen_12: "thirteen ! 12 = mk 13 ''yellow'' ''open''"
  by (simp add: thirteen_def eleven_def)

subsection \<open>Page cursors\<close>

text \<open>
  C2. For every raw response array and requested page, \<open>nextPage\<close> is \<open>page + 1\<close> when
  the array as received has more than 10 elements and is absent (\<open>null\<close>) otherwise.
  \<open>page + 1\<close> is the addition of the language on \<open>options.page\<close> (on 1 when the key
  is omitted); it is the integer \<open>p + 1\<close> for every integer page \<open>p\<close> within the safe
  integers. The length is the one before trimming: on 11 received records the payload
  lists 10 ids and still has a next page.
\<close>

theorem nextPage_from_raw_length:
  assumes "fetch (requestURL opts) = Inr res" and "ok res" and "body res = Some (JArray raw)"
  shows "\<exists>pl. settled (retrieve fetch opts) = Inr (Some pl)
    \<and> (length raw \<le> 10 \<longrightarrow> nextPage pl = None)
    \<and> (10 < length raw \<longrightarrow>
         (opts = Some ob \<and> page_key ob = Some pg \<longrightarrow>
            nextPage pl = Some (js_plus (to_number pg) (Num 1)))
         \<and> (opts = Some ob \<and> page_key ob = Some (PNumber (Num p))
              \<and> - 9007199254740992 \<le> p \<and> p < 9007199254740992 \<longrightarrow>
            nextPage pl = Some (Num (p + 1)))
         \<and> (opts = None \<or> (opts = Some ob \<and> page_key ob = None) \<longrightarrow>
            nextPage pl = Some (Num 2)))
    \<and> (length raw = 11 \<longrightarrow> length (ids pl) = 10 \<and> nextPage pl \<noteq> None)"
proof -
  let ?pl = "shape (page_of opts) raw"
  have s: "settled (retrieve fetch opts) = Inr (Some ?pl)"
    using assms by (rule retrieve_success)
  have a: "length raw \<le> 10 \<longrightarrow> nextPage ?pl = None"
    by (simp add: next_shape)
  have b1: "opts = Some ob \<and> page_key ob = Some pg \<longrightarrow>
            nextPage ?pl = (if 10 < length raw then Some (js_plus (to_number pg) (Num 1)) else None)"
    by (auto simp add: next_shape page_of_def)
  have b2: "opts = Some ob \<and> page_key ob = Some (PNumber (Num p))
              \<and> - 9007199254740992 \<le> p \<and> p < 9007199254740992 \<longrightarrow>
            nextPage ?pl = (if 10 < length raw then Some (Num (p + 1)) else None)"
    by (auto simp add: next_shape page_of_def round_double_exact)
  have b3: "opts = None \<or> (opts = Some ob \<and> page_key ob = None) \<longrightarrow>
            nextPage ?pl = (if 10 < length raw then Some (Num 2) else None)"
    by (auto simp add: next_shape page_of_def round_double_exact)
  have c: "length raw = 11 \<longrightarrow> length (ids ?pl) = 10 \<and> nextPage ?pl \<noteq> None"
    by (simp add: next_shape ids_shape)
  from a b1 b2 b3 c have
    "settled (retrieve fetch opts) = Inr (Some ?pl)
    \<and> (length raw \<le> 10 \<longrightarrow> nextPage ?pl = None)
    \<and> (10 < length raw \<longrightarrow>
         (opts = Some ob \<and> page_key ob = Some pg \<longrightarrow>
            nextPage ?pl = Some (js_plus (to_number pg) (Num 1)))
         \<and> (opts = Some ob \<and> page_key ob = Some (PNumber (Num p))
              \<and> - 9007199254740992 \<le> p \<and> p < 9007199254740992 \<longrightarrow>
            nextPage ?pl = Some (Num (p + 1)))
         \<and> (opts = None \<or> (opts = Some ob \<and> page_key ob = None) \<longrightarrow>
            nextPage ?pl = Some (Num 2)))
    \<and> (length raw = 11 \<longrightarrow> length (ids ?pl) = 10 \<and> nextPage ?pl \<noteq> None)"
    using s by simp
  then show ?thesis by (rule exI)
qed

theorem nextPage_from_raw_length_witness:
  "respond (answers eleven) (requestURL (page_only 3)) = Inr (answers eleven)
   \<and> ok (answers eleven) \<and> body (answers eleven) = Some (JArray eleven)
   \<and> 10 < length eleven \<and> length eleven = 11
   \<and> - 9007199254740992 \<le> (3::int) \<and> (3::int) < 9007199254740992
   \<and> (\<exists>pl. settled (retrieve (respond (answers eleven)) (page_only 3)) = Inr (Some pl)
         \<and> nextPage pl = Some (Num 4) \<and> length (ids pl) = 10)"
proof -
  have h: "respond (answers eleven) (requestURL (page_only 3)) = Inr (answers eleven)"
    "ok (answers eleven)" "body (answers eleven) = Some (JArray eleven)"
    by (simp_all add: respond_def answers_def)
  obtain pl where pl: "settled (retrieve (respond (answers eleven)) (page_only 3)) = Inr (Some pl)"
    and n: "10 < length eleven \<longrightarrow>
         (page_only 3 = Some \<lparr>page_key = Some (PNumber (Num 3)), colors_key = None\<rparr>
            \<and> page_key \<lparr>page_key = Some (PNumber (Num 3)), colors_key = None\<rparr> = Some (PNumber (Num 3))
            \<and> - 9007199254740992 \<le> (3::int) \<and> (3::int) < 9007199254740992 \<longrightarrow>
          nextPage pl = Some (Num (3 + 1)))"
    and l: "length eleven = 11 \<longrightarrow> length (ids pl) = 10 \<and> nextPage pl \<noteq> None"
    using nextPage_from_raw_length [where fetch = "respond (answers eleven)"
        and opts = "page_only 3" and res = "answers eleven" and raw = eleven
        and ob = "\<lparr>page_key = Some (PNumber (Num 3)), colors_key = None\<rparr>"
        and pg = "PNumber (Num 3)" and p = 3] h
    by blast
  from n l have "nextPage pl = Some (Num 4)" "length (ids pl) = 10"
    by (simp_all add: length_eleven page_only_def)
  with pl h show ?thesis by (auto simp add: length_eleven)
qed

text \<open>
  C5. For every requested page \<open>p \<ge> 2\<close> the payload's \<open>previousPage\<close> is \<open>p - 1\<close> (the
  integer, for \<open>p\<close> within the safe integers; the subtraction of the language on
  \<open>options.page\<close> in general); for page 1, given or by default, it is absent (\<open>null\<close>);
  it is the same whatever array the transport returned.
\<close>

theorem previousPage_from_page:
  assumes "fetch (requestURL opts) = Inr res" and "ok res" and "body res = Some (JArray raw)"
  shows "\<exists>pl. settled (retrieve fetch opts) = Inr (Some pl)
    \<and> (opts = Some ob \<and> page_key ob = Some (PNumber (Num p))
         \<and> 2 \<le> p \<and> p \<le> 9007199254740992 \<longrightarrow>
       previousPage pl = Some (Num (p - 1)))
    \<and> (opts = Some ob \<and> page_key ob = Some (PNumber (Num 1)) \<longrightarrow> previousPage pl = None)
    \<and> (opts = None \<or> (opts = Some ob \<and> page_key ob = None) \<longrightarrow> previousPage pl = None)
    \<and> (opts = Some ob \<and> page_key ob = Some pg \<longrightarrow>
       previousPage pl =
         (if is_one pg then None else Some (js_minus (to_number pg) (Num 1))))
    \<and> previousPage pl = previousPage (shape (page_of opts) raw')"
proof -
  let ?pl = "shape (page_of opts) raw"
  have s: "settled (retrieve fetch opts) = Inr (Some ?pl)"
    using assms by (rule retrieve_success)
  have a: "opts = Some ob \<and> page_key ob = Some (PNumber (Num p))
         \<and> 2 \<le> p \<and> p \<le> 9007199254740992 \<longrightarrow>
       previousPage ?pl = Some (Num (p - 1))"
    by (auto simp add: prev_shape page_of_def round_double_exact)
  have b: "opts = Some ob \<and> page_key ob = Some (PNumber (Num 1)) \<longrightarrow> previousPage ?pl = None"
    by (auto simp add: prev_shape page_of_def)
  have c: "opts = None \<or> (opts = Some ob \<and> page_key ob = None) \<longrightarrow> previousPage ?pl = None"
    by (auto simp add: prev_shape page_of_def)
  have d: "opts = Some ob \<and> page_key ob = Some pg \<longrightarrow>
       previousPage ?pl =
         (if is_one pg then None else Some (js_minus (to_number pg) (Num 1)))"
    by (auto simp add: prev_shape page_of_def)
  have e: "previousPage ?pl = previousPage (shape (page_of opts) raw')"
    by (simp add: prev_shape)
  from s a b c d e show ?thesis by blast
qed

theorem previousPage_from_page_witness:
  "respond (answers (take 5 eleven)) (requestURL (page_only 2)) = Inr (answers (take 5 eleven))
   \<and> ok (answers (take 5 eleven)) \<and> body (answers (take 5 eleven)) = Some (JArray (take 5 eleven))
   \<and> (2::int) \<le> 2 \<and> (2::int) \<le> 9007199254740992
   \<and> (\<exists>pl. settled (retrieve (respond (answers (take 5 eleven))) (page_only 2)) = Inr (Some pl)
         \<and> previousPage pl = Some (Num 1) \<and> nextPage pl = None)"
proof -
  have h: "respond (answers (take 5 eleven)) (requestURL (page_only 2)) = Inr (answers (take 5 eleven))"
    "ok (answers (take 5 eleven))" "body (answers (take 5 eleven)) = Some (JArray (take 5 eleven))"
    by (simp_all add: respond_def answers_def)
  obtain pl where pl: "settled (retrieve (respond (answers (take 5 eleven))) (page_only 2)) = Inr (Some pl)"
    and n: "page_only 2 = Some \<lparr>page_key = Some (PNumber (Num 2)), colors_key = None\<rparr>
            \<and> page_key \<lparr>page_key = Some (PNumber (Num 2)), colors_key = None\<rparr> = Some (PNumber (Num 2))
            \<and> (2::int) \<le> 2 \<and> (2::int) \<le> 9007199254740992 \<longrightarrow>
          previousPage pl = Some (Num (2 - 1))"
    using previousPage_from_page [where fetch = "respond (answers (take 5 eleven))"
        and opts = "page_only 2" and res = "answers (take 5 eleven)" and raw = "take 5 eleven"
        and ob = "\<lparr>page_key = Some (PNumber (Num 2)), colors_key = None\<rparr>"
        and p = 2] h
    by blast
  from n have p: "previousPage pl = Some (Num 1)"
    by (simp add: page_only_def)
  from pl have "pl = shape (page_of (page_only 2)) (take 5 eleven)"
    using retrieve_success [where fetch = "respond (answers (take 5 eleven))"
        and opts = "page_only 2" and res = "answers (take 5 eleven)" and raw = "take 5 eleven"] h
    by simp
  then have "nextPage pl = None"
    by (simp add: next_shape length_eleven)
  with pl p h show ?thesis by auto
qed

subsection \<open>Trimming\<close>

text \<open>
  C3. For every raw response array of at most 11 records the payload has at most 10
  ids, and \<open>ids\<close>, \<open>open\<close> and \<open>closedPrimaryCount\<close> are computed from the first 10
  records alone: with 11 records received, the payload's three fields are those of the
  array without its last record.
\<close>

theorem sentinel_never_exposed:
  assumes "length raw \<le> 11"
  shows "length (ids (shape page raw)) \<le> 10
    \<and> ids (shape page raw) = map id_rec (take 10 raw)
    \<and> open (shape page raw) =
        filter (\<lambda>r. disposition r = ''open'') (map with_primary (take 10 raw))
    \<and> closedPrimaryCount (shape page raw) =
        length (filter (\<lambda>r. disposition r = ''closed'' \<and> isPrimary r)
                  (map with_primary (take 10 raw)))
    \<and> (length raw = 11 \<longrightarrow>
         ids (shape page raw) = ids (shape page (butlast raw))
         \<and> open (shape page raw) = open (shape page (butlast raw))
         \<and> closedPrimaryCount (shape page raw) = closedPrimaryCount (shape page (butlast raw)))"
  using assms by (simp add: ids_shape open_shape count_shape butlast_conv_take)

theorem sentinel_never_exposed_witness:
  "length eleven \<le> 11 \<and> length eleven = 11
   \<and> ids (shape (PNumber (Num 1)) eleven) = [1, 2, 3, 4, 5, 6, 7, 8, 9, 10]
   \<and> map id_rec (open (shape (PNumber (Num 1)) eleven)) = [1, 4, 7, 8, 10]
   \<and> closedPrimaryCount (shape (PNumber (Num 1)) eleven) = 3"
  using sentinel_never_exposed [of eleven "PNumber (Num 1)"]
  by (simp add: length_eleven eleven_def mk_def with_primary_def isPrimaryColor_def)

text \<open>
  C10. For every raw response array of length \<open>n\<close>, \<open>data.splice(limit, 1)\<close> removes the
  element at index 10 when \<open>n > 10\<close> and nothing otherwise. So for \<open>n \<ge> 12\<close> the
  payload has \<open>n - 1\<close> ids, more than 10, and every record at an index above 10 is
  listed in \<open>ids\<close>, is in \<open>open\<close> when its disposition is open, and is counted in
  \<open>closedPrimaryCount\<close>.
\<close>

theorem splice_removes_index_10_only:
  "splice_js (nat limit) 1 raw = (if 10 < length raw then take 10 raw @ drop 11 raw else raw)
   \<and> length (splice_js (nat limit) 1 raw) = (if 10 < length raw then length raw - 1 else length raw)
   \<and> ids (shape page raw) = map id_rec (splice_js (nat limit) 1 raw)
   \<and> (12 \<le> length raw \<longrightarrow>
        length (ids (shape page raw)) = length raw - 1 \<and> 10 < length (ids (shape page raw)))
   \<and> (\<forall>i. 11 \<le> i \<and> i < length raw \<longrightarrow>
        ids (shape page raw) ! (i - 1) = id_rec (raw ! i)
        \<and> (disposition (raw ! i) = ''open'' \<longrightarrow>
             with_primary (raw ! i) \<in> set (open (shape page raw))))
   \<and> closedPrimaryCount (shape page raw) =
       length (filter (\<lambda>r. disposition r = ''closed'' \<and> isPrimaryColor (color r)) (take 10 raw))
       + length (filter (\<lambda>r. disposition r = ''closed'' \<and> isPrimaryColor (color r)) (drop 11 raw))"
proof -
  let ?t = "take 10 raw @ drop 11 raw"
  have a: "splice_js (nat limit) 1 raw = (if 10 < length raw then ?t else raw)"
    unfolding trimmed by simp
  have b: "length (splice_js (nat limit) 1 raw) =
             (if 10 < length raw then length raw - 1 else length raw)"
    unfolding trimmed by simp
  have c: "ids (shape page raw) = map id_rec (splice_js (nat limit) 1 raw)"
    unfolding trimmed by (simp add: ids_shape)
  have d: "12 \<le> length raw \<longrightarrow>
        length (ids (shape page raw)) = length raw - 1 \<and> 10 < length (ids (shape page raw))"
    by (auto simp add: ids_shape)
  have e: "\<forall>i. 11 \<le> i \<and> i < length raw \<longrightarrow>
        ids (shape page raw) ! (i - 1) = id_rec (raw ! i)
        \<and> (disposition (raw ! i) = ''open'' \<longrightarrow>
             with_primary (raw ! i) \<in> set (open (shape page raw)))"
  proof (intro allI impI)
    fix i assume i: "11 \<le> i \<and> i < length raw"
    then have nth: "?t ! (i - 1) = raw ! i" and len: "i - 1 < length ?t"
      by (auto simp add: nth_append)
    have "ids (shape page raw) ! (i - 1) = id_rec (raw ! i)"
      using nth len by (simp only: ids_shape nth_map)
    moreover have "disposition (raw ! i) = ''open'' \<longrightarrow>
             with_primary (raw ! i) \<in> set (open (shape page raw))"
    proof
      assume o: "disposition (raw ! i) = ''open''"
      have "raw ! i \<in> set ?t" using nth len nth_mem by metis
      then show "with_primary (raw ! i) \<in> set (open (shape page raw))"
        using o by (auto simp add: open_shape with_primary_sel)
    qed
    ultimately show "ids (shape page raw) ! (i - 1) = id_rec (raw ! i)
        \<and> (disposition (raw ! i) = ''open'' \<longrightarrow>
             with_primary (raw ! i) \<in> set (open (shape page raw)))"
      by simp
  qed
  have f: "closedPrimaryCount (shape page raw) =
       length (filter (\<lambda>r. disposition r = ''closed'' \<and> isPrimaryColor (color r)) (take 10 raw))
       + length (filter (\<lambda>r. disposition r = ''closed'' \<and> isPrimaryColor (color r)) (drop 11 raw))"
    by (simp add: count_shape with_primary_sel filter_map comp_def)
  show ?thesis using a b c d e f by (intro conjI)
qed

theorem splice_removes_index_10_only_witness:
  "12 \<le> length thirteen \<and> (11 \<le> (12::nat) \<and> 12 < length thirteen)
   \<and> length (ids (shape (PNumber (Num 1)) thirteen)) = 12
   \<and> ids (shape (PNumber (Num 1)) thirteen) ! 11 = 13
   \<and> disposition (thirteen ! 12) = ''open''
   \<and> with_primary (thirteen ! 12) \<in> set (open (shape (PNumber (Num 1)) thirteen))
   \<and> closedPrimaryCount (shape (PNumber (Num 1)) thirteen) = 4"
proof -
  note t = splice_removes_index_10_only [of thirteen "PNumber (Num 1)"]
  have len: "12 \<le> length thirteen" and idx: "11 \<le> (12::nat) \<and> 12 < length thirteen"
    by (simp_all add: length_thirteen)
  have op: "disposition (thirteen ! 12) = ''open''"
    by (simp add: nth_thirteen_12 mk_def)
  from t len have n: "length (ids (shape (PNumber (Num 1)) thirteen)) = length thirteen - 1"
    by blast
  from t idx have i: "ids (shape (PNumber (Num 1)) thirteen) ! (12 - 1) = id_rec (thirteen ! 12)"
    by blast
  from t idx op have m: "with_primary (thirteen ! 12) \<in> set (open (shape (PNumber (Num 1)) thirteen))"
    by blast
  from n have n': "length (ids (shape (PNumber (Num 1)) thirteen)) = 12"
    by (simp add: length_thirteen)
  from i have i': "ids (shape (PNumber (Num 1)) thirteen) ! 11 = 13"
    by (simp add: nth_thirteen_12 mk_def)
  from t have "closedPrimaryCount (shape (PNumber (Num 1)) thirteen) =
       length (filter (\<lambda>r. disposition r = ''closed'' \<and> isPrimaryColor (color r)) (take 10 thirteen))
       + length (filter (\<lambda>r. disposition r = ''closed'' \<and> isPrimaryColor (color r)) (drop 11 thirteen))"
    by blast
  then have c: "closedPrimaryCount (shape (PNumber (Num 1)) thirteen) = 4"
    by (simp add: thirteen_def eleven_def mk_def isPrimaryColor_def)
  show ?thesis using len idx n' i' op m c by blast
qed

subsection \<open>Classification\<close>

text \<open>
  C8. For every raw response array, \<open>open\<close> holds exactly the trimmed records whose
  disposition is \<open>"open"\<close>, in the order received, each with the key \<open>isPrimary\<close> added
  and its other keys unchanged; \<open>isPrimary\<close> is true iff the colour is red, blue or
  yellow, so it is false for brown and green.
\<close>

theorem open_records_classified:
  "open (shape page raw) =
     map with_primary (filter (\<lambda>r. disposition r = ''open'') (take 10 raw @ drop 11 raw))
   \<and> isPrimary (with_primary r) = (color r \<in> {''red'', ''blue'', ''yellow''})
   \<and> id_rec (with_primary r) = id_rec r
   \<and> color (with_primary r) = color r
   \<and> disposition (with_primary r) = disposition r
   \<and> \<not> isPrimaryColor ''brown'' \<and> \<not> isPrimaryColor ''green''"
  by (simp add: open_shape with_primary_sel isPrimaryColor_def filter_map comp_def)

text \<open>
  C9. For every raw response array, \<open>closedPrimaryCount\<close> is the number of trimmed
  records whose disposition is \<open>"closed"\<close> and whose colour is red, blue or yellow.
\<close>

theorem closedPrimaryCount_counts_closed_primary:
  "closedPrimaryCount (shape page raw) =
     length (filter (\<lambda>r. disposition r = ''closed'' \<and> color r \<in> {''red'', ''blue'', ''yellow''})
               (take 10 raw @ drop 11 raw))"
  by (simp add: count_shape with_primary_sel isPrimaryColor_def filter_map comp_def)

subsection \<open>The request\<close>

lemma build_query_append: "build_query (ps @ qs) = build_query ps @ build_query qs"
  by (induction ps rule: build_query.induct) simp_all

lemma build_query_colors:
  "build_query (map (Pair ''color[]'') vs) = concat (map (\<lambda>c. ''&color[]='' @ c) vs)"
  by (induction vs) simp_all

lemma query_requestURI:
  "query (requestURI opts) =
     [(''limit'', ''11''), (''offset'', show_num (offset_of (page_of opts)))]
     @ (case colors_of opts of CArray cs \<Rightarrow> map (Pair ''color[]'') cs | _ \<Rightarrow> [])"
  unfolding requestURI_def URI_def Let_def
  by (simp add: limit_def round_double_def show_int_def digits.simps split: colorsarg.splits)

lemma base_requestURI: "base (requestURI opts) = path"
  by (simp add: requestURI_def URI_def Let_def split: colorsarg.splits)

lemma requestURL_colors:
  assumes "colors_of opts = CArray cs"
  shows "requestURL opts =
     ''http://localhost:3000/records?limit=11&offset='' @ show_num (offset_of (page_of opts))
     @ concat (map (\<lambda>c. ''&color[]='' @ c) cs)"
  using assms
  by (simp add: requestURL_def toString_def query_requestURI base_requestURI path_def
      build_query_append build_query_colors)

lemma requestURL_falsy:
  assumes "colors_of opts = CUndefined \<or> colors_of opts = CNull"
  shows "requestURL opts =
     ''http://localhost:3000/records?limit=11&offset='' @ show_num (offset_of (page_of opts))"
  using assms
  by (auto simp add: requestURL_def toString_def query_requestURI base_requestURI path_def)

lemma offset_exact:
  assumes "\<bar>(p - 1) * 10\<bar> \<le> 9007199254740992"
  shows "offset_of (PNumber (Num p)) = Num ((p - 1) * 10)"
proof -
  from assms have p: "\<bar>p\<bar> \<le> 9007199254740992" and q: "\<bar>p - 1\<bar> \<le> 9007199254740992"
    by (simp_all add: abs_le_iff)
  have m: "js_minus (to_number (PNumber (Num p))) (Num 1) = Num (p - 1)"
    by (simp add: round_double_exact [OF p] round_double_exact [OF q])
  have t: "js_times (Num (p - 1)) (Num limit) = Num ((p - 1) * 10)"
    unfolding limit_def js_times.simps using assms by (rule round_double_exact)
  show ?thesis
    unfolding offset_of_def m t js_or_def by simp
qed

lemma offset_default:
  "offset_of (PNumber (Num 1)) = Num 0"
  "offset_of PUndefined = Num 0"
  "offset_of (PNumber NaN) = Num 0"
  by (simp_all add: offset_of_def js_or_def limit_def round_double_def)

lemma offset_param:
  "map_of (query (requestURI opts)) ''offset'' = Some (show_num (offset_of (page_of opts)))"
  by (simp add: query_requestURI)

text \<open>
  C7. For every options input, \<open>retrieve\<close> gives the URL builder the number 11 under
  \<open>limit\<close>, the computed offset under \<open>offset\<close> and the array \<open>options.colors\<close>
  under \<open>color[]\<close>. With the builder as the spec describes it, the query string
  carries \<open>limit=11\<close>, then the offset, then one \<open>color[]\<close> entry per element of
  \<open>colors\<close> in the order supplied; when \<open>colors\<close> is empty, omitted or falsy there
  is no \<open>color[]\<close> key. This is the URL that \<open>retrieve\<close> requests.
\<close>

theorem request_query_shape:
  "(opts = Some ob \<and> colors_key ob = Some (CArray cs) \<longrightarrow>
      requestURI opts =
        addSearch ''color[]'' (QStrings cs)
          (addSearch ''offset'' (QNumber (offset_of (page_of opts)))
            (addSearch ''limit'' (QNumber (Num 11)) (URI ''http://localhost:3000/records'')))
      \<and> query (requestURI opts) =
        [(''limit'', ''11''), (''offset'', show_num (offset_of (page_of opts)))]
        @ map (Pair ''color[]'') cs
      \<and> requestURL opts =
        ''http://localhost:3000/records?limit=11&offset=''
        @ show_num (offset_of (page_of opts)) @ concat (map (\<lambda>c. ''&color[]='' @ c) cs))
   \<and> (opts = None
        \<or> (opts = Some ob
            \<and> colors_key ob \<in> {None, Some (CArray []), Some CUndefined, Some CNull}) \<longrightarrow>
        requestURL opts =
          ''http://localhost:3000/records?limit=11&offset='' @ show_num (offset_of (page_of opts))
        \<and> ''color[]'' \<notin> fst ` set (query (requestURI opts)))
   \<and> url (retrieve fetch opts) = requestURL opts"
proof (intro conjI impI)
  assume "opts = Some ob \<and> colors_key ob = Some (CArray cs)"
  then have c: "colors_of opts = CArray cs"
    by (simp add: colors_of_def)
  then show "requestURI opts =
        addSearch ''color[]'' (QStrings cs)
          (addSearch ''offset'' (QNumber (offset_of (page_of opts)))
            (addSearch ''limit'' (QNumber (Num 11)) (URI ''http://localhost:3000/records'')))"
    by (simp add: requestURI_def Let_def limit_def path_def round_double_def)
  from c show "query (requestURI opts) =
        [(''limit'', ''11''), (''offset'', show_num (offset_of (page_of opts)))]
        @ map (Pair ''color[]'') cs"
    by (simp add: query_requestURI)
  from c show "requestURL opts =
        ''http://localhost:3000/records?limit=11&offset=''
        @ show_num (offset_of (page_of opts)) @ concat (map (\<lambda>c. ''&color[]='' @ c) cs)"
    by (rule requestURL_colors)
next
  assume "opts = None
        \<or> (opts = Some ob
            \<and> colors_key ob \<in> {None, Some (CArray []), Some CUndefined, Some CNull})"
  then have e: "colors_of opts \<in> {CArray [], CUndefined, CNull}"
    by (auto simp add: colors_of_def)
  then show "requestURL opts =
          ''http://localhost:3000/records?limit=11&offset='' @ show_num (offset_of (page_of opts))"
    using requestURL_colors [of opts "[]"] requestURL_falsy [of opts] by auto
  from e show "''color[]'' \<notin> fst ` set (query (requestURI opts))"
    by (auto simp add: query_requestURI)
next
  show "url (retrieve fetch opts) = requestURL opts"
    by (simp add: retrieve_def split: sum.splits)
qed

theorem request_query_shape_witness:
  "Some \<lparr>page_key = None, colors_key = Some (CArray [''red'', ''blue''])\<rparr>
     = Some \<lparr>page_key = None, colors_key = Some (CArray [''red'', ''blue''])\<rparr>
   \<and> colors_key \<lparr>page_key = None, colors_key = Some (CArray [''red'', ''blue''])\<rparr>
     = Some (CArray [''red'', ''blue''])
   \<and> requestURL (Some \<lparr>page_key = None, colors_key = Some (CArray [''red'', ''blue''])\<rparr>)
     = ''http://localhost:3000/records?limit=11&offset=0&color[]=red&color[]=blue''
   \<and> colors_key \<lparr>page_key = Some (PNumber (Num 3)), colors_key = None\<rparr>
       \<in> {None, Some (CArray []), Some CUndefined, Some CNull}
   \<and> requestURL (page_only 3) = ''http://localhost:3000/records?limit=11&offset=20''"
  using request_query_shape [of "Some \<lparr>page_key = None, colors_key = Some (CArray [''red'', ''blue''])\<rparr>"
      "\<lparr>page_key = None, colors_key = Some (CArray [''red'', ''blue''])\<rparr>" "[''red'', ''blue'']"]
    request_query_shape [of "page_only 3" "\<lparr>page_key = Some (PNumber (Num 3)), colors_key = None\<rparr>"]
  by (simp add: page_only_def page_of_def offset_of_def js_or_def limit_def round_double_def
      show_int_def digits.simps)

text \<open>
  C6, as stated: the offset is \<open>(page - 1) * 10\<close> and is 0 whenever \<open>page\<close> is falsy.
  For \<open>page = 0\<close> the two halves disagree, and the source follows the first:
  \<open>(0 - 1) * 10\<close> is \<open>-10\<close>, which is truthy, so \<open>|| 0\<close> does not apply.
\<close>

theorem offset_page_zero_is_negative:
  "offset_of (page_of (Some \<lparr>page_key = Some (PNumber (Num 0)), colors_key = None\<rparr>)) = Num (- 10)
   \<and> offset_of (page_of (Some \<lparr>page_key = Some (PNumber (Num 0)), colors_key = None\<rparr>)) \<noteq> Num 0
   \<and> requestURL (Some \<lparr>page_key = Some (PNumber (Num 0)), colors_key = None\<rparr>)
       = ''http://localhost:3000/records?limit=11&offset=-10''"
  by (simp add: requestURL_colors [of _ "[]"] colors_of_def page_of_def offset_of_def js_or_def
      limit_def round_double_def show_int_def digits.simps)

text \<open>
  C6, amended. For every options input whose page is an integer \<open>p\<close> with
  \<open>(p - 1) * 10\<close> within the safe integers, the offset is \<open>(p - 1) * 10\<close>, written in
  decimal under the key \<open>offset\<close>; it is 0 when \<open>page\<close> is omitted (the page then
  defaults to 1) and when \<open>page\<close> is \<open>undefined\<close> or \<open>NaN\<close>, where \<open>(page - 1) * 10\<close>
  is \<open>NaN\<close>. In general it is \<open>(page - 1) * 10 || 0\<close> in the arithmetic of the language.
\<close>

theorem offset_by_page:
  "(opts = Some ob \<and> page_key ob = Some (PNumber (Num p))
      \<and> \<bar>(p - 1) * 10\<bar> \<le> 9007199254740992 \<longrightarrow>
      offset_of (page_of opts) = Num ((p - 1) * 10)
      \<and> map_of (query (requestURI opts)) ''offset'' = Some (show_int ((p - 1) * 10)))
   \<and> (opts = None
        \<or> (opts = Some ob
            \<and> page_key ob \<in> {None, Some PUndefined, Some (PNumber NaN)}) \<longrightarrow>
      offset_of (page_of opts) = Num 0
      \<and> map_of (query (requestURI opts)) ''offset'' = Some ''0'')
   \<and> (opts = Some ob \<and> page_key ob = Some pg \<longrightarrow>
      offset_of (page_of opts) =
        js_or (js_times (js_minus (to_number pg) (Num 1)) (Num 10)) (Num 0)
      \<and> map_of (query (requestURI opts)) ''offset'' = Some (show_num (offset_of (page_of opts))))"
proof (intro conjI impI)
  assume h: "opts = Some ob \<and> page_key ob = Some (PNumber (Num p))
      \<and> \<bar>(p - 1) * 10\<bar> \<le> 9007199254740992"
  then have pg: "page_of opts = PNumber (Num p)"
    by (simp add: page_of_def)
  from h have b: "\<bar>(p - 1) * 10\<bar> \<le> 9007199254740992"
    by (rule conjunct2 [THEN conjunct2])
  show o: "offset_of (page_of opts) = Num ((p - 1) * 10)"
    unfolding pg using b by (rule offset_exact)
  show "map_of (query (requestURI opts)) ''offset'' = Some (show_int ((p - 1) * 10))"
    unfolding offset_param o using b by (simp only: show_num_exact)
next
  assume "opts = None
        \<or> (opts = Some ob
            \<and> page_key ob \<in> {None, Some PUndefined, Some (PNumber NaN)})"
  then have "page_of opts \<in> {PNumber (Num 1), PUndefined, PNumber NaN}"
    by (auto simp add: page_of_def)
  then show o: "offset_of (page_of opts) = Num 0"
    by (auto simp add: offset_default)
  show "map_of (query (requestURI opts)) ''offset'' = Some ''0''"
    by (simp add: offset_param o show_int_def digits.simps)
next
  assume "opts = Some ob \<and> page_key ob = Some pg"
  then show "offset_of (page_of opts) =
        js_or (js_times (js_minus (to_number pg) (Num 1)) (Num 10)) (Num 0)"
    by (simp add: page_of_def offset_of_def limit_def)
next
  show "map_of (query (requestURI opts)) ''offset'' = Some (show_num (offset_of (page_of opts)))"
    by (rule offset_param)
qed

theorem offset_by_page_witness:
  "page_only 3 = Some \<lparr>page_key = Some (PNumber (Num 3)), colors_key = None\<rparr>
   \<and> page_key \<lparr>page_key = Some (PNumber (Num 3)), colors_key = None\<rparr> = Some (PNumber (Num 3))
   \<and> \<bar>((3::int) - 1) * 10\<bar> \<le> 9007199254740992
   \<and> offset_of (page_of (page_only 3)) = Num 20
   \<and> map_of (query (requestURI (page_only 3))) ''offset'' = Some ''20''
   \<and> page_key \<lparr>page_key = None, colors_key = Some (CArray [''red''])\<rparr>
       \<in> {None, Some PUndefined, Some (PNumber NaN)}
   \<and> offset_of (page_of (Some \<lparr>page_key = None, colors_key = Some (CArray [''red''])\<rparr>)) = Num 0"
  using offset_by_page [of "page_only 3" "\<lparr>page_key = Some (PNumber (Num 3)), colors_key = None\<rparr>" 3]
    offset_by_page [of "Some \<lparr>page_key = None, colors_key = Some (CArray [''red''])\<rparr>"
      "\<lparr>page_key = None, colors_key = Some (CArray [''red''])\<rparr>"]
  by (simp add: page_only_def show_int_def digits.simps)

subsection \<open>Pages beyond the safe integers\<close>

text \<open>
  Where the exact result is no double, the arithmetic of the language rounds: page
  \<open>2^53\<close> has itself as next page, page \<open>2^53 + 2\<close> has \<open>2^53\<close> as previous page, and
  the offsets of pages 9000000000000002 and \<open>10^20\<close> are written as the language
  writes such numbers.
\<close>

lemma nextPage_rounds:
  "nextPage (shape (PNumber (Num 9007199254740992)) eleven) = Some (Num 9007199254740992)"
  by (simp add: next_shape length_eleven) code_simp

lemma previousPage_rounds:
  "previousPage (shape (PNumber (Num 9007199254740994)) eleven) = Some (Num 9007199254740992)"
  by (simp add: prev_shape) code_simp

lemma offset_rounds:
  "offset_of (PNumber (Num 9000000000000002)) = Num 90000000000000016"
  "show_num (Num 90000000000000016) = ''90000000000000020''"
  "show_num (offset_of (PNumber (Num 100000000000000000000))) = ''1e+21''"
  by code_simp+

subsection \<open>Failures\<close>

text \<open>
  C1, as stated: on a non-success status the returned promise is rejected. On status
  500 it is fulfilled, with \<open>undefined\<close>.
\<close>

theorem failure_status_500_fulfils_undefined:
  "settled (retrieve (respond \<lparr>ok = False, status = 500, body = None\<rparr>) None) = Inr None
   \<and> \<not> isl (settled (retrieve (respond \<lparr>ok = False, status = 500, body = None\<rparr>) None))"
  by (simp add: retrieve_def retrieve_chain_def then_p_def respond_def on_response_def)

text \<open>
  C1, amended. For every call in which the transport responds with a non-success
  status \<open>s\<close>, the first callback throws an \<open>Error\<close> whose message ends in \<open>s\<close>, so no
  payload is produced; the final \<open>catch\<close> writes that error to the console and the
  returned promise is fulfilled with \<open>undefined\<close>.
\<close>

theorem failure_status_logged_not_rejected:
  assumes "fetch (requestURL opts) = Inr res" and "\<not> ok res"
  shows "retrieve_chain fetch opts =
           Inl (Error (''Fetching /records failed with: '' @ show_int (status res)))
    \<and> settled (retrieve fetch opts) = Inr None
    \<and> console (retrieve fetch opts) =
        [Error (''Fetching /records failed with: '' @ show_int (status res))]"
  using assms by (simp add: retrieve_def retrieve_chain_def then_p_def on_response_def)

theorem failure_status_logged_not_rejected_witness:
  "respond \<lparr>ok = False, status = 500, body = None\<rparr> (requestURL None)
     = Inr \<lparr>ok = False, status = 500, body = None\<rparr>
   \<and> \<not> ok \<lparr>ok = False, status = 500, body = None\<rparr>
   \<and> settled (retrieve (respond \<lparr>ok = False, status = 500, body = None\<rparr>) None) = Inr None
   \<and> console (retrieve (respond \<lparr>ok = False, status = 500, body = None\<rparr>) None)
       = [Error ''Fetching /records failed with: 500'']"
  using failure_status_logged_not_rejected [of "respond \<lparr>ok = False, status = 500, body = None\<rparr>" None
               "\<lparr>ok = False, status = 500, body = None\<rparr>"]
  by (simp add: respond_def show_int_def digits.simps)

text \<open>
  C4. For every options input and every outcome of the transport, the promise returned
  by \<open>retrieve\<close> is fulfilled, never rejected: with the payload when the chain
  succeeds, and with \<open>undefined\<close>, after the error was logged, when anything in the
  chain failed: a rejected \<open>fetch\<close>, a non-success status, a body that is not JSON, or
  a decoded value on which the shaping throws.
\<close>

theorem retrieve_always_fulfils:
  "(\<exists>v. settled (retrieve fetch opts) = Inr v)
   \<and> (\<forall>e. retrieve_chain fetch opts = Inl e \<longrightarrow>
         settled (retrieve fetch opts) = Inr None \<and> console (retrieve fetch opts) = [e])
   \<and> (\<forall>p. retrieve_chain fetch opts = Inr p \<longrightarrow>
         settled (retrieve fetch opts) = Inr (Some p) \<and> console (retrieve fetch opts) = [])
   \<and> (\<forall>e. fetch (requestURL opts) = Inl e \<longrightarrow> retrieve_chain fetch opts = Inl e)
   \<and> (\<forall>res. fetch (requestURL opts) = Inr res \<and> \<not> ok res \<longrightarrow>
         retrieve_chain fetch opts =
           Inl (Error (''Fetching /records failed with: '' @ show_int (status res))))
   \<and> (\<forall>res. fetch (requestURL opts) = Inr res \<and> ok res \<and> body res = None \<longrightarrow>
         retrieve_chain fetch opts = Inl SyntaxError)
   \<and> (\<forall>res. fetch (requestURL opts) = Inr res \<and> ok res \<and> body res \<in> {Some JNull, Some JOther} \<longrightarrow>
         retrieve_chain fetch opts = Inl TypeError)
   \<and> (\<forall>res raw. fetch (requestURL opts) = Inr res \<and> ok res \<and> body res = Some (JArray raw) \<longrightarrow>
         retrieve_chain fetch opts = Inr (shape (page_of opts) raw))"
  by (auto simp add: retrieve_def retrieve_chain_def then_p_def on_response_def on_data_def
      split: sum.splits)

theorem retrieve_always_fulfils_witness:
  "respond \<lparr>ok = True, status = 200, body = Some JNull\<rparr> (requestURL None)
     = Inr \<lparr>ok = True, status = 200, body = Some JNull\<rparr>
   \<and> ok \<lparr>ok = True, status = 200, body = Some JNull\<rparr>
   \<and> body \<lparr>ok = True, status = 200, body = Some JNull\<rparr> \<in> {Some JNull, Some JOther}
   \<and> retrieve_chain (respond \<lparr>ok = True, status = 200, body = Some JNull\<rparr>) None = Inl TypeError
   \<and> settled (retrieve (respond \<lparr>ok = True, status = 200, body = Some JNull\<rparr>) None) = Inr None
   \<and> console (retrieve (respond \<lparr>ok = True, status = 200, body = Some JNull\<rparr>) None) = [TypeError]"
  using retrieve_always_fulfils [of "respond \<lparr>ok = True, status = 200, body = Some JNull\<rparr>" None]
  by (simp add: respond_def)

end
